theory Spec2Isabelle
  imports Main "HOL-Library.Word"
begin

section \<open>Package syncs: additional sync types\<close>

text \<open>
  The embedding follows \<^verbatim>\<open>src/syncs/syncs.go\<close>. Every method is modelled as it runs in
  one goroutine with no other goroutine touching the same value in between: an atomic
  operation is then an ordinary read-modify-write, and a lock that is taken is granted at
  once and released when the method returns. What a method can do besides returning is a
  value of the model: it can panic, and it can block (with nobody else to wake it, the
  call then never returns).
\<close>

datatype panic =
    CloseOfNilChannel         \<comment> \<open>\<^verbatim>\<open>close of nil channel\<close>\<close>
  | CloseOfClosedChannel      \<comment> \<open>\<^verbatim>\<open>close of closed channel\<close>\<close>
  | SendOnClosedChannel       \<comment> \<open>\<^verbatim>\<open>send on closed channel\<close>\<close>
  | MakechanSizeOutOfRange    \<comment> \<open>\<^verbatim>\<open>makechan: size out of range\<close>\<close>
  | StoreOfNilValue           \<comment> \<open>\<^verbatim>\<open>sync/atomic: store of nil value into Value\<close>\<close>
  | SwapOfNilValue            \<comment> \<open>\<^verbatim>\<open>sync/atomic: swap of nil value into Value\<close>\<close>
  | CompareAndSwapOfNilValue  \<comment> \<open>\<^verbatim>\<open>sync/atomic: compare and swap of nil value into Value\<close>\<close>
  | StoreOfInconsistentType
      \<comment> \<open>\<^verbatim>\<open>sync/atomic: store of inconsistently typed value into Value\<close>\<close>
  | SwapOfInconsistentType
      \<comment> \<open>\<^verbatim>\<open>sync/atomic: swap of inconsistently typed value into Value\<close>\<close>
  | CompareAndSwapOfInconsistentValues
      \<comment> \<open>\<^verbatim>\<open>sync/atomic: compare and swap of inconsistently typed values\<close>\<close>
  | CompareAndSwapOfInconsistentType
      \<comment> \<open>\<^verbatim>\<open>sync/atomic: compare and swap of inconsistently typed value into Value\<close>\<close>

datatype 'a outcome = Returns 'a | Panics panic | Blocks

subsection \<open>Channels of \<^verbatim>\<open>struct{}\<close>\<close>

text \<open>
  A \<^verbatim>\<open>chan struct{}\<close> carries no data, so a channel is its capacity, the number of
  elements in its buffer and whether it has been closed; the zero value of a channel type
  is the nil channel. A send or a receive that cannot proceed blocks.
\<close>

datatype chan = NilChan | Chan nat nat bool

text \<open>Go's \<^verbatim>\<open>cap(ch)\<close> and \<^verbatim>\<open>len(ch)\<close>, both 0 for the nil channel.\<close>

fun chan_cap :: "chan \<Rightarrow> nat" where
  "chan_cap NilChan = 0"
| "chan_cap (Chan c l cl) = c"

fun chan_len :: "chan \<Rightarrow> nat" where
  "chan_len NilChan = 0"
| "chan_len (Chan c l cl) = l"

fun chan_closed :: "chan \<Rightarrow> bool" where
  "chan_closed NilChan = False"
| "chan_closed (Chan c l cl) = cl"

text \<open>\<^verbatim>\<open>make(chan struct{}, n)\<close>; \<^verbatim>\<open>make(chan struct{})\<close> is \<open>make_chan 0\<close>.\<close>

definition make_chan :: "int \<Rightarrow> chan outcome" where
  "make_chan n = (if n < 0 then Panics MakechanSizeOutOfRange else Returns (Chan (nat n) 0 False))"

text \<open>\<^verbatim>\<open>close(ch)\<close>\<close>

fun chan_close :: "chan \<Rightarrow> chan outcome" where
  "chan_close NilChan = Panics CloseOfNilChannel"
| "chan_close (Chan c l cl) = (if cl then Panics CloseOfClosedChannel else Returns (Chan c l True))"

text \<open>
  \<^verbatim>\<open>ch <- struct{}{}\<close>. \<open>can_send\<close> tells whether the send can proceed at once, which
  is what a \<^verbatim>\<open>select\<close> asks of a send case (a send on a closed channel proceeds, and
  panics).
\<close>

fun can_send :: "chan \<Rightarrow> bool" where
  "can_send NilChan = False"
| "can_send (Chan c l cl) = (cl \<or> l < c)"

fun chan_send :: "chan \<Rightarrow> chan outcome" where
  "chan_send NilChan = Blocks"
| "chan_send (Chan c l cl) =
     (if cl then Panics SendOnClosedChannel
      else if l < c then Returns (Chan c (l + 1) cl)
      else Blocks)"

text \<open>
  \<^verbatim>\<open><-ch\<close>: takes a buffered element if there is one, returns at once on a closed
  channel, and blocks otherwise.
\<close>

fun chan_recv :: "chan \<Rightarrow> chan outcome" where
  "chan_recv NilChan = Blocks"
| "chan_recv (Chan c l cl) =
     (if 0 < l then Returns (Chan c (l - 1) cl)
      else if cl then Returns (Chan c l cl)
      else Blocks)"

text \<open>\<^verbatim>\<open>ClosedChan\<close> returns the package's channel that is already closed.\<close>

definition initClosedChan :: "chan outcome" where
  "initClosedChan = (case make_chan 0 of Returns ch \<Rightarrow> chan_close ch | r \<Rightarrow> r)"

subsection \<open>WaitGroupChan\<close>

type_synonym int64 = "64 word"

text \<open>
  \<^verbatim>\<open>type WaitGroupChan struct { n int64; done chan struct{} }\<close>. The constructor leaves
  \<open>n\<close> at its zero value and makes an unbuffered channel.
\<close>

record WaitGroupChan =
  wg_n :: int64
  wg_done :: chan

definition NewWaitGroupChan :: "WaitGroupChan" where
  "NewWaitGroupChan = \<lparr>wg_n = 0, wg_done = Chan 0 0 False\<rparr>"

definition DoneChan :: "WaitGroupChan \<Rightarrow> chan" where
  "DoneChan wg = wg_done wg"

text \<open>
  \<^verbatim>\<open>Add\<close>: \<^verbatim>\<open>n := atomic.AddInt64(&wg.n, int64(delta)); if n == 0 { close(wg.done) }\<close>.
  The parameter is \<^verbatim>\<open>int64(delta)\<close>: Go's \<^verbatim>\<open>int\<close> has 64 bits on 64-bit targets, and
  a 32-bit \<^verbatim>\<open>int\<close> is sign-extended to one of the same values. The addition wraps
  around. The result is the outcome of the call together with the state it leaves: when
  \<^verbatim>\<open>close\<close> panics the counter has already been updated.
\<close>

definition Add :: "WaitGroupChan \<Rightarrow> int64 \<Rightarrow> unit outcome \<times> WaitGroupChan" where
  "Add wg delta =
     (let n = wg_n wg + delta;
          wg' = wg\<lparr>wg_n := n\<rparr>
      in if n = 0 then
           (case chan_close (wg_done wg') of
              Returns ch \<Rightarrow> (Returns (), wg'\<lparr>wg_done := ch\<rparr>)
            | Panics e \<Rightarrow> (Panics e, wg')
            | Blocks \<Rightarrow> (Blocks, wg'))
         else (Returns (), wg'))"


text \<open>\<^verbatim>\<open>Wait\<close>: \<^verbatim>\<open><-wg.done\<close>.\<close>

definition Wait :: "WaitGroupChan \<Rightarrow> unit outcome \<times> WaitGroupChan" where
  "Wait wg =
     (case chan_recv (wg_done wg) of
        Returns ch \<Rightarrow> (Returns (), wg\<lparr>wg_done := ch\<rparr>)
      | Panics e \<Rightarrow> (Panics e, wg)
      | Blocks \<Rightarrow> (Blocks, wg))"






subsection \<open>Semaphore\<close>

text \<open>
  \<^verbatim>\<open>type Semaphore struct { c chan struct{} }\<close>: the resources in use are the elements
  in the buffer of \<open>c\<close>.
\<close>

record Semaphore =
  sem_c :: chan

definition NewSemaphore :: "int \<Rightarrow> Semaphore outcome" where
  "NewSemaphore n = map_outcome (\<lambda>ch. \<lparr>sem_c = ch\<rparr>) (make_chan n)"

definition Acquire :: "Semaphore \<Rightarrow> Semaphore outcome" where
  "Acquire s = map_outcome (\<lambda>ch. s\<lparr>sem_c := ch\<rparr>) (chan_send (sem_c s))"

text \<open>
  \<^verbatim>\<open>AcquireContext\<close>: a \<^verbatim>\<open>select\<close> between the send and \<^verbatim>\<open><-ctx.Done()\<close>.
  \<open>ctx_done\<close> tells whether the context's Done channel is closed. When both cases can
  proceed Go chooses one at random: \<open>pick\<close> is that choice, true for the send.
\<close>

definition AcquireContext :: "Semaphore \<Rightarrow> bool \<Rightarrow> bool \<Rightarrow> (bool \<times> Semaphore) outcome" where
  "AcquireContext s ctx_done pick =
     (if can_send (sem_c s) \<and> (\<not> ctx_done \<or> pick)
        then map_outcome (\<lambda>ch. (True, s\<lparr>sem_c := ch\<rparr>)) (chan_send (sem_c s))
      else if ctx_done then Returns (False, s)
      else Blocks)"

text \<open>\<^verbatim>\<open>TryAcquire\<close>: a \<^verbatim>\<open>select\<close> between the send and \<^verbatim>\<open>default\<close>.\<close>

definition TryAcquire :: "Semaphore \<Rightarrow> (bool \<times> Semaphore) outcome" where
  "TryAcquire s =
     (if can_send (sem_c s)
        then map_outcome (\<lambda>ch. (True, s\<lparr>sem_c := ch\<rparr>)) (chan_send (sem_c s))
      else Returns (False, s))"

definition Release :: "Semaphore \<Rightarrow> Semaphore outcome" where
  "Release s = map_outcome (\<lambda>ch. s\<lparr>sem_c := ch\<rparr>) (chan_recv (sem_c s))"

text \<open>The number of resources in use and the resource count of a semaphore.\<close>

definition occupied :: "Semaphore \<Rightarrow> nat" where
  "occupied s = chan_len (sem_c s)"

definition capacity :: "Semaphore \<Rightarrow> nat" where
  "capacity s = chan_cap (sem_c s)"

text \<open>
  A goroutine that makes a sequence of calls on one semaphore; the sequence goes on as
  long as each call returns.
\<close>

datatype sem_call = CallAcquire | CallAcquireContext bool bool | CallTryAcquire | CallRelease

fun do_sem_call :: "sem_call \<Rightarrow> Semaphore \<Rightarrow> Semaphore outcome" where
  "do_sem_call CallAcquire s = Acquire s"
| "do_sem_call (CallAcquireContext ctx_done pick) s = map_outcome snd (AcquireContext s ctx_done pick)"
| "do_sem_call CallTryAcquire s = map_outcome snd (TryAcquire s)"
| "do_sem_call CallRelease s = Release s"

fun sem_calls :: "sem_call list \<Rightarrow> Semaphore \<Rightarrow> Semaphore outcome" where
  "sem_calls [] s = Returns s"
| "sem_calls (c # cs) s =
     (case do_sem_call c s of Returns s' \<Rightarrow> sem_calls cs s' | Panics e \<Rightarrow> Panics e | Blocks \<Rightarrow> Blocks)"

text \<open>
  What holds of the channel of a semaphore with resource count \<open>N\<close>: it was made with
  capacity \<open>N\<close>, it is never closed, and its buffer holds at most \<open>N\<close> elements.
\<close>

definition sem_inv :: "nat \<Rightarrow> Semaphore \<Rightarrow> bool" where
  "sem_inv N s = (\<exists>l. l \<le> N \<and> sem_c s = Chan N l False)"

subsection \<open>AtomicValue\<close>

text \<open>
  \<^verbatim>\<open>type AtomicValue[T any] struct { v atomic.Value }\<close>. The constraint \<^verbatim>\<open>any\<close> lets
  \<open>T\<close> be every Go type, interface types included. A type \<open>T\<close> is a HOL type \<open>'a\<close> of
  its values together with its zero value and, for each value \<open>x\<close>, the dynamic type of
  \<^verbatim>\<open>any(x)\<close>: a non-interface type gives every value the same dynamic type, \<open>T\<close>
  itself; an interface type gives a value the type of what it holds, and none to its nil
  value, which converts to the nil \<^verbatim>\<open>any\<close>. Dynamic types are named by strings.
\<close>

type_synonym rtype = string

record 'a gotype =
  zero_of :: 'a
  rtype_of :: "'a \<Rightarrow> rtype option"

text \<open>
  An \<^verbatim>\<open>any\<close> made from a \<open>T\<close> is nil or a dynamic type with a value; \<open>to_any\<close> is the
  conversion \<^verbatim>\<open>any(x)\<close> that passing \<open>x\<close> to a parameter of type \<^verbatim>\<open>any\<close> makes.
\<close>

type_synonym 'a any = "(rtype \<times> 'a) option"

definition to_any :: "'a gotype \<Rightarrow> 'a \<Rightarrow> 'a any" where
  "to_any T x = (case rtype_of T x of None \<Rightarrow> None | Some rt \<Rightarrow> Some (rt, x))"

text \<open>
  Two types for concrete instances. \<^verbatim>\<open>int\<close> is not an interface type. \<^verbatim>\<open>error\<close> is
  one: its values here are nil, a \<^verbatim>\<open>*errors.errorString\<close> (by its text, what
  \<^verbatim>\<open>errors.New\<close> returns) and a \<^verbatim>\<open>syscall.Errno\<close>.
\<close>

definition go_int :: "int gotype" where
  "go_int = \<lparr>zero_of = 0, rtype_of = (\<lambda>x. Some ''int'')\<rparr>"

datatype error_value = NilError | ErrorString string | Errno nat

definition go_error :: "error_value gotype" where
  "go_error =
     \<lparr>zero_of = NilError,
      rtype_of = (\<lambda>e. case e of
                        NilError \<Rightarrow> None
                      | ErrorString s \<Rightarrow> Some ''*errors.errorString''
                      | Errno n \<Rightarrow> Some ''syscall.Errno'')\<rparr>"

text \<open>
  \<^verbatim>\<open>sync/atomic.Value\<close> of Go's standard library. Its state is the value it holds, nil
  until the first store. \<^verbatim>\<open>Store\<close>, \<^verbatim>\<open>Swap\<close> and \<^verbatim>\<open>CompareAndSwap\<close> panic when the
  new value is nil, and when its dynamic type is not that of the value held; a call that
  panics leaves the state as it was. Otherwise they return the new state, \<^verbatim>\<open>Swap\<close> and
  \<^verbatim>\<open>CompareAndSwap\<close> with their result. \<^verbatim>\<open>CompareAndSwap\<close> also panics when \<open>old\<close> is
  not nil and not of the dynamic type of \<open>new\<close>; on a Value that holds nothing it returns
  false unless \<open>old\<close> is nil, and otherwise it compares the value held with \<open>old\<close> (by
  \<^verbatim>\<open>==\<close>, taken here to be equality of the values and not to panic).
\<close>

definition Value_Load :: "'a any \<Rightarrow> 'a any" where
  "Value_Load v = v"

definition Value_Store :: "'a any \<Rightarrow> 'a any \<Rightarrow> 'a any outcome" where
  "Value_Store v val =
     (case val of
        None \<Rightarrow> Panics StoreOfNilValue
      | Some (rt, x) \<Rightarrow>
          (case v of
             None \<Rightarrow> Returns val
           | Some (vrt, y) \<Rightarrow>
               if vrt \<noteq> rt then Panics StoreOfInconsistentType else Returns val))"

definition Value_Swap :: "'a any \<Rightarrow> 'a any \<Rightarrow> ('a any \<times> 'a any) outcome" where
  "Value_Swap v new =
     (case new of
        None \<Rightarrow> Panics SwapOfNilValue
      | Some (rt, x) \<Rightarrow>
          (case v of
             None \<Rightarrow> Returns (None, new)
           | Some (vrt, y) \<Rightarrow>
               if vrt \<noteq> rt then Panics SwapOfInconsistentType else Returns (v, new)))"

definition Value_CompareAndSwap :: "'a any \<Rightarrow> 'a any \<Rightarrow> 'a any \<Rightarrow> (bool \<times> 'a any) outcome" where
  "Value_CompareAndSwap v old new =
     (case new of
        None \<Rightarrow> Panics CompareAndSwapOfNilValue
      | Some (rt, x) \<Rightarrow>
          if (case old of None \<Rightarrow> False | Some (ort, z) \<Rightarrow> ort \<noteq> rt)
            then Panics CompareAndSwapOfInconsistentValues
          else
            (case v of
               None \<Rightarrow> if old \<noteq> None then Returns (False, v) else Returns (True, new)
             | Some (vrt, y) \<Rightarrow>
                 if vrt \<noteq> rt then Panics CompareAndSwapOfInconsistentType
                 else if v \<noteq> old then Returns (False, v)
                 else Returns (True, new)))"

record 'a AtomicValue =
  av_v :: "'a any"

text \<open>
  \<^verbatim>\<open>LoadOk\<close>: \<^verbatim>\<open>x := v.v.Load(); if x != nil { return x.(T), true }; return zero, false\<close>.
  The type assertion \<^verbatim>\<open>x.(T)\<close> gives back the \<open>T\<close> that was converted.
\<close>

definition AtomicValue_LoadOk :: "'a gotype \<Rightarrow> 'a AtomicValue \<Rightarrow> 'a \<times> bool" where
  "AtomicValue_LoadOk T v =
     (case Value_Load (av_v v) of
        Some (rt, x) \<Rightarrow> (x, True)
      | None \<Rightarrow> (zero_of T, False))"

definition AtomicValue_Load :: "'a gotype \<Rightarrow> 'a AtomicValue \<Rightarrow> 'a" where
  "AtomicValue_Load T v = fst (AtomicValue_LoadOk T v)"

text \<open>\<^verbatim>\<open>Store\<close>: \<^verbatim>\<open>v.v.Store(x)\<close>.\<close>

definition AtomicValue_Store :: "'a gotype \<Rightarrow> 'a AtomicValue \<Rightarrow> 'a \<Rightarrow> 'a AtomicValue outcome" where
  "AtomicValue_Store T v x =
     map_outcome (\<lambda>s. v\<lparr>av_v := s\<rparr>) (Value_Store (av_v v) (to_any T x))"

text \<open>
  \<^verbatim>\<open>Swap\<close>: \<^verbatim>\<open>oldV := v.v.Swap(x); if oldV != nil { return oldV.(T) }; return old\<close>, where
  the named result \<^verbatim>\<open>old\<close> still has its zero value.
\<close>

definition AtomicValue_Swap ::
    "'a gotype \<Rightarrow> 'a AtomicValue \<Rightarrow> 'a \<Rightarrow> ('a \<times> 'a AtomicValue) outcome" where
  "AtomicValue_Swap T v x =
     map_outcome
       (\<lambda>(oldV, s). ((case oldV of Some (rt, y) \<Rightarrow> y | None \<Rightarrow> zero_of T), v\<lparr>av_v := s\<rparr>))
       (Value_Swap (av_v v) (to_any T x))"

text \<open>\<^verbatim>\<open>CompareAndSwap\<close>: \<^verbatim>\<open>return v.v.CompareAndSwap(oldV, newV)\<close>.\<close>

definition AtomicValue_CompareAndSwap ::
    "'a gotype \<Rightarrow> 'a AtomicValue \<Rightarrow> 'a \<Rightarrow> 'a \<Rightarrow> (bool \<times> 'a AtomicValue) outcome" where
  "AtomicValue_CompareAndSwap T v oldV newV =
     map_outcome (\<lambda>(swapped, s). (swapped, v\<lparr>av_v := s\<rparr>))
       (Value_CompareAndSwap (av_v v) (to_any T oldV) (to_any T newV))"

subsection \<open>Map\<close>

text \<open>
  A Go \<^verbatim>\<open>map[K]V\<close> is nil or holds its entries. Reading a nil map finds nothing and
  \<^verbatim>\<open>delete\<close> on it does nothing. \<open>zeroV\<close> is the zero value of \<open>V\<close>.
\<close>

type_synonym ('k, 'v) gomap = "('k \<rightharpoonup> 'v) option"

text \<open>\<^verbatim>\<open>value, ok = m[key]\<close>\<close>

definition gomap_index :: "'v \<Rightarrow> ('k, 'v) gomap \<Rightarrow> 'k \<Rightarrow> 'v \<times> bool" where
  "gomap_index zeroV m key =
     (case m of
        None \<Rightarrow> (zeroV, False)
      | Some f \<Rightarrow> (case f key of Some v \<Rightarrow> (v, True) | None \<Rightarrow> (zeroV, False)))"

text \<open>\<^verbatim>\<open>delete(m, key)\<close>\<close>

definition gomap_delete :: "('k, 'v) gomap \<Rightarrow> 'k \<Rightarrow> ('k, 'v) gomap" where
  "gomap_delete m key = (case m of None \<Rightarrow> None | Some f \<Rightarrow> Some (f(key := None)))"

text \<open>
  Modelled from the spec: \<^verbatim>\<open>mak.Set\<close> of package \<^verbatim>\<open>tailscale.com/util/mak\<close>, which is
  not among the sources. The map ``lazily allocates backing storage on first write'' and
  a store is an ``insert-or-overwrite'': \<^verbatim>\<open>mak.Set(&m, key, value)\<close> makes the map if it
  is nil and sets the entry.
\<close>

definition mak_Set :: "('k, 'v) gomap \<Rightarrow> 'k \<Rightarrow> 'v \<Rightarrow> ('k, 'v) gomap" where
  "mak_Set m key value =
     (case m of None \<Rightarrow> Some [key \<mapsto> value] | Some f \<Rightarrow> Some (f(key \<mapsto> value)))"

text \<open>
  \<^verbatim>\<open>type Map[K comparable, V any] struct { mu sync.RWMutex; m map[K]V }\<close>. In one
  goroutine \<open>mu\<close> is free at every call and free again at every return, so the state of a
  Map between calls is its field \<open>m\<close>.
\<close>

record ('k, 'v) SyncsMap =
  map_m :: "('k, 'v) gomap"

definition Map_Load :: "'v \<Rightarrow> ('k, 'v) SyncsMap \<Rightarrow> 'k \<Rightarrow> 'v \<times> bool" where
  "Map_Load zeroV m key = gomap_index zeroV (map_m m) key"

definition Map_Store :: "('k, 'v) SyncsMap \<Rightarrow> 'k \<Rightarrow> 'v \<Rightarrow> ('k, 'v) SyncsMap" where
  "Map_Store m key value = m\<lparr>map_m := mak_Set (map_m m) key value\<rparr>"

text \<open>
  \<^verbatim>\<open>LoadOrStore\<close>: the lookup under the read lock first, then under the write lock the
  lookup again and the insertion. The result is the pair returned and the Map left.
\<close>

definition Map_LoadOrStore ::
    "'v \<Rightarrow> ('k, 'v) SyncsMap \<Rightarrow> 'k \<Rightarrow> 'v \<Rightarrow> ('v \<times> bool) \<times> ('k, 'v) SyncsMap" where
  "Map_LoadOrStore zeroV m key value =
     (let (actual, loaded) = Map_Load zeroV m key
      in if loaded then ((actual, loaded), m)
         else
           (let (actual, loaded) = gomap_index zeroV (map_m m) key
            in if \<not> loaded then ((value, loaded), m\<lparr>map_m := mak_Set (map_m m) key value\<rparr>)
               else ((actual, loaded), m)))"

definition Map_LoadAndDelete ::
    "'v \<Rightarrow> ('k, 'v) SyncsMap \<Rightarrow> 'k \<Rightarrow> ('v \<times> bool) \<times> ('k, 'v) SyncsMap" where
  "Map_LoadAndDelete zeroV m key =
     (let (value, loaded) = gomap_index zeroV (map_m m) key
      in if loaded then ((value, loaded), m\<lparr>map_m := gomap_delete (map_m m) key\<rparr>)
         else ((value, loaded), m))"

definition Map_Delete :: "('k, 'v) SyncsMap \<Rightarrow> 'k \<Rightarrow> ('k, 'v) SyncsMap" where
  "Map_Delete m key = m\<lparr>map_m := gomap_delete (map_m m) key\<rparr>"

text \<open>The entries of a Map: none while \<open>m\<close> is nil.\<close>

definition entries :: "('k, 'v) SyncsMap \<Rightarrow> ('k \<rightharpoonup> 'v)" where
  "entries m = (case map_m m of None \<Rightarrow> Map.empty | Some f \<Rightarrow> f)"

section \<open>Properties\<close>

subsection \<open>WaitGroupChan\<close>

text \<open>What \<^verbatim>\<open>Add\<close> does, case by case.\<close>

lemma Add_result:
  "Add wg delta =
     (if wg_n wg + delta = 0 then
        (case wg_done wg of
           NilChan \<Rightarrow> (Panics CloseOfNilChannel, wg\<lparr>wg_n := 0\<rparr>)
         | Chan c l cl \<Rightarrow>
             if cl then (Panics CloseOfClosedChannel, wg\<lparr>wg_n := 0\<rparr>)
             else (Returns (), wg\<lparr>wg_n := 0, wg_done := Chan c l True\<rparr>))
      else (Returns (), wg\<lparr>wg_n := wg_n wg + delta\<rparr>))"
  by (simp add: Add_def Let_def split: chan.split)




text \<open>No \<^verbatim>\<open>Add\<close> with a negative result panics, in any state.\<close>

lemma Add_negative_result:
  "sint (wg_n wg + delta) < 0 \<Longrightarrow> Add wg delta = (Returns (), wg\<lparr>wg_n := wg_n wg + delta\<rparr>)"
  by (auto simp: Add_result)

text \<open>
  C1. The claim: an \<^verbatim>\<open>Add(delta)\<close> whose result would be negative panics, and the
  counter is never left negative. The code has no such check: on a new WaitGroupChan
  \<^verbatim>\<open>Add(-1)\<close> returns, the done channel stays open and the counter is left at -1.
\<close>

theorem Add_negative_returns:
  "Add NewWaitGroupChan (- 1) = (Returns (), \<lparr>wg_n = - 1, wg_done = Chan 0 0 False\<rparr>)
   \<and> sint (wg_n (snd (Add NewWaitGroupChan (- 1)))) = - 1"
  by (simp add: Add_result NewWaitGroupChan_def)



text \<open>
  C10. \<^verbatim>\<open>Add(0)\<close> on a new WaitGroupChan, on which \<^verbatim>\<open>Wait\<close> would block, returns
  and closes the done channel: the channel \<^verbatim>\<open>DoneChan\<close> gives is closed and a
  \<^verbatim>\<open>Wait\<close> returns, though the counter was never positive and nothing was decremented.
\<close>

theorem Add_zero_fires:
  "fst (Wait NewWaitGroupChan) = Blocks
   \<and> Add NewWaitGroupChan 0 = (Returns (), \<lparr>wg_n = 0, wg_done = Chan 0 0 True\<rparr>)
   \<and> chan_closed (DoneChan (snd (Add NewWaitGroupChan 0)))
   \<and> fst (Wait (snd (Add NewWaitGroupChan 0))) = Returns ()"
  by (simp add: Add_result NewWaitGroupChan_def Wait_def DoneChan_def)

subsection \<open>Semaphore\<close>

text \<open>
  The channel of a semaphore keeps its capacity, stays open and never holds more than its
  capacity, from \<^verbatim>\<open>NewSemaphore\<close> on and through every call that returns.
\<close>

lemma NewSemaphore_inv: "NewSemaphore n = Returns s \<Longrightarrow> sem_inv (nat n) s"
  by (auto simp: NewSemaphore_def make_chan_def sem_inv_def split: if_splits)

lemma do_sem_call_inv:
  "sem_inv N s \<Longrightarrow> do_sem_call c s = Returns s' \<Longrightarrow> sem_inv N s'"
  by (cases c)
     (auto simp: sem_inv_def Acquire_def AcquireContext_def TryAcquire_def Release_def
           split: if_splits)

lemma sem_calls_inv:
  "sem_inv N s \<Longrightarrow> sem_calls cs s = Returns s' \<Longrightarrow> sem_inv N s'"
proof (induction cs arbitrary: s)
  case Nil
  then show ?case by simp
next
  case (Cons c cs)
  from Cons.prems(2) obtain s1 where c: "do_sem_call c s = Returns s1"
    and cs: "sem_calls cs s1 = Returns s'"
    by (auto split: outcome.splits)
  from do_sem_call_inv [OF Cons.prems(1) c] cs show ?case
    by (rule Cons.IH)
qed

lemma TryAcquire_inv:
  "sem_inv N s \<Longrightarrow>
   TryAcquire s =
     (if occupied s < N then Returns (True, s\<lparr>sem_c := Chan N (occupied s + 1) False\<rparr>)
      else Returns (False, s))"
  by (auto simp: sem_inv_def TryAcquire_def occupied_def)

lemma AcquireContext_inv:
  "sem_inv N s \<Longrightarrow>
   AcquireContext s ctx_done pick =
     (if occupied s < N \<and> (\<not> ctx_done \<or> pick)
        then Returns (True, s\<lparr>sem_c := Chan N (occupied s + 1) False\<rparr>)
      else if ctx_done then Returns (False, s)
      else Blocks)"
  by (auto simp: sem_inv_def AcquireContext_def occupied_def)

text \<open>Three runs on a semaphore with two resources, used as concrete instances below.\<close>

lemma NewSemaphore_2: "NewSemaphore 2 = Returns \<lparr>sem_c = Chan 2 0 False\<rparr>"
  by (simp add: NewSemaphore_def make_chan_def)

lemma sem_calls_none: "sem_calls [] \<lparr>sem_c = Chan 2 0 False\<rparr> = Returns \<lparr>sem_c = Chan 2 0 False\<rparr>"
  by simp

lemma sem_calls_one:
  "sem_calls [CallTryAcquire, CallAcquire, CallRelease] \<lparr>sem_c = Chan 2 0 False\<rparr>
     = Returns \<lparr>sem_c = Chan 2 1 False\<rparr>"
  by (simp add: TryAcquire_def Acquire_def Release_def)

lemma sem_calls_two:
  "sem_calls [CallTryAcquire, CallAcquire] \<lparr>sem_c = Chan 2 0 False\<rparr>
     = Returns \<lparr>sem_c = Chan 2 2 False\<rparr>"
  by (simp add: TryAcquire_def Acquire_def)

text \<open>
  C8. Take a semaphore made by \<^verbatim>\<open>NewSemaphore(N)\<close> and any sequence of calls on it
  that all return. Its resource count is still \<open>N\<close> and the number of resources in use
  is at most \<open>N\<close> (and, a natural number, at least 0). \<^verbatim>\<open>TryAcquire\<close> then returns true
  and takes one more resource if fewer than \<open>N\<close> are in use, and returns false and
  changes nothing otherwise. With \<open>N = 2\<close>: two \<^verbatim>\<open>TryAcquire\<close> return true, a third
  returns false, and after one \<^verbatim>\<open>Release\<close> a \<^verbatim>\<open>TryAcquire\<close> returns true again.
\<close>

theorem Semaphore_occupancy:
  assumes "NewSemaphore N = Returns s0" and "sem_calls cs s0 = Returns s"
  shows "capacity s = nat N \<and> occupied s \<le> nat N
    \<and> (occupied s < nat N \<longrightarrow>
         (\<exists>s'. TryAcquire s = Returns (True, s') \<and> occupied s' = occupied s + 1
                \<and> capacity s' = nat N))
    \<and> (\<not> occupied s < nat N \<longrightarrow> TryAcquire s = Returns (False, s))
    \<and> (\<exists>t0 t1 t2 t3 t4.
          NewSemaphore 2 = Returns t0 \<and> TryAcquire t0 = Returns (True, t1)
          \<and> TryAcquire t1 = Returns (True, t2) \<and> TryAcquire t2 = Returns (False, t2)
          \<and> Release t2 = Returns t3 \<and> TryAcquire t3 = Returns (True, t4))"
proof -
  have inv: "sem_inv (nat N) s"
    using assms by (blast intro: NewSemaphore_inv sem_calls_inv)
  then have "capacity s = nat N" and "occupied s \<le> nat N"
    by (auto simp: sem_inv_def capacity_def occupied_def)
  moreover have "occupied s < nat N \<longrightarrow>
      (\<exists>s'. TryAcquire s = Returns (True, s') \<and> occupied s' = occupied s + 1
             \<and> capacity s' = nat N)"
    by (simp add: TryAcquire_inv [OF inv] occupied_def capacity_def)
  moreover have "\<not> occupied s < nat N \<longrightarrow> TryAcquire s = Returns (False, s)"
    by (simp add: TryAcquire_inv [OF inv])
  moreover have "\<exists>t0 t1 t2 t3 t4.
          NewSemaphore 2 = Returns t0 \<and> TryAcquire t0 = Returns (True, t1)
          \<and> TryAcquire t1 = Returns (True, t2) \<and> TryAcquire t2 = Returns (False, t2)
          \<and> Release t2 = Returns t3 \<and> TryAcquire t3 = Returns (True, t4)"
    by (simp add: NewSemaphore_def make_chan_def TryAcquire_def Release_def)
  ultimately show ?thesis by blast
qed

theorem Semaphore_occupancy_witness:
  "NewSemaphore 2 = Returns \<lparr>sem_c = Chan 2 0 False\<rparr>
   \<and> sem_calls [CallTryAcquire, CallAcquire, CallRelease] \<lparr>sem_c = Chan 2 0 False\<rparr>
       = Returns \<lparr>sem_c = Chan 2 1 False\<rparr>
   \<and> sem_calls [CallTryAcquire, CallAcquire] \<lparr>sem_c = Chan 2 0 False\<rparr>
       = Returns \<lparr>sem_c = Chan 2 2 False\<rparr>
   \<and> occupied \<lparr>sem_c = Chan 2 1 False\<rparr> < 2
   \<and> (\<exists>s'. TryAcquire \<lparr>sem_c = Chan 2 1 False\<rparr> = Returns (True, s') \<and> occupied s' = 2)
   \<and> \<not> occupied \<lparr>sem_c = Chan 2 2 False\<rparr> < 2
   \<and> TryAcquire \<lparr>sem_c = Chan 2 2 False\<rparr> = Returns (False, \<lparr>sem_c = Chan 2 2 False\<rparr>)"
proof -
  from Semaphore_occupancy [OF NewSemaphore_2 sem_calls_one]
  have "\<exists>s'. TryAcquire \<lparr>sem_c = Chan 2 1 False\<rparr> = Returns (True, s') \<and> occupied s' = 2"
    by (auto simp: occupied_def)
  moreover from Semaphore_occupancy [OF NewSemaphore_2 sem_calls_two]
  have "TryAcquire \<lparr>sem_c = Chan 2 2 False\<rparr> = Returns (False, \<lparr>sem_c = Chan 2 2 False\<rparr>)"
    by (auto simp: occupied_def)
  ultimately show ?thesis
    using NewSemaphore_2 sem_calls_one sem_calls_two by (simp add: occupied_def)
qed

text \<open>
  C9. Take a semaphore made by \<^verbatim>\<open>NewSemaphore(N)\<close> and any sequence of calls on it
  that all return. If all its resources are in use and the context is already done,
  \<^verbatim>\<open>AcquireContext\<close> returns false and leaves the semaphore as it is. And whenever
  \<^verbatim>\<open>AcquireContext\<close> returns, whatever the context and the choice of the
  \<^verbatim>\<open>select\<close>, it returns true exactly when one more resource is in use afterwards;
  when it returns false the semaphore is unchanged.
\<close>

theorem AcquireContext_cancelled:
  assumes "NewSemaphore N = Returns s0" and "sem_calls cs s0 = Returns s"
  shows "(occupied s = capacity s \<longrightarrow> AcquireContext s True pick = Returns (False, s))
    \<and> (\<forall>b s'. AcquireContext s ctx_done pick = Returns (b, s') \<longrightarrow>
          (b \<longleftrightarrow> occupied s' = occupied s + 1) \<and> (\<not> b \<longrightarrow> s' = s))"
proof -
  have inv: "sem_inv (nat N) s"
    using assms by (blast intro: NewSemaphore_inv sem_calls_inv)
  then have cap: "capacity s = nat N"
    by (auto simp: sem_inv_def capacity_def)
  have "occupied s = capacity s \<longrightarrow> AcquireContext s True pick = Returns (False, s)"
    by (simp add: AcquireContext_inv [OF inv] cap)
  moreover have "\<forall>b s'. AcquireContext s ctx_done pick = Returns (b, s') \<longrightarrow>
          (b \<longleftrightarrow> occupied s' = occupied s + 1) \<and> (\<not> b \<longrightarrow> s' = s)"
    by (auto simp: AcquireContext_inv [OF inv] occupied_def split: if_splits)
  ultimately show ?thesis by blast
qed

theorem AcquireContext_cancelled_witness:
  "NewSemaphore 2 = Returns \<lparr>sem_c = Chan 2 0 False\<rparr>
   \<and> sem_calls [CallTryAcquire, CallAcquire] \<lparr>sem_c = Chan 2 0 False\<rparr>
       = Returns \<lparr>sem_c = Chan 2 2 False\<rparr>
   \<and> occupied \<lparr>sem_c = Chan 2 2 False\<rparr> = capacity \<lparr>sem_c = Chan 2 2 False\<rparr>
   \<and> AcquireContext \<lparr>sem_c = Chan 2 2 False\<rparr> True True
       = Returns (False, \<lparr>sem_c = Chan 2 2 False\<rparr>)
   \<and> AcquireContext \<lparr>sem_c = Chan 2 0 False\<rparr> False True
       = Returns (True, \<lparr>sem_c = Chan 2 1 False\<rparr>)
   \<and> occupied \<lparr>sem_c = Chan 2 1 False\<rparr> = occupied \<lparr>sem_c = Chan 2 0 False\<rparr> + 1"
proof -
  have acq: "AcquireContext \<lparr>sem_c = Chan 2 0 False\<rparr> False True
      = Returns (True, \<lparr>sem_c = Chan 2 1 False\<rparr>)"
    by (simp add: AcquireContext_def)
  from AcquireContext_cancelled [OF NewSemaphore_2 sem_calls_two, of True True]
  have "AcquireContext \<lparr>sem_c = Chan 2 2 False\<rparr> True True
      = Returns (False, \<lparr>sem_c = Chan 2 2 False\<rparr>)"
    by (simp add: occupied_def capacity_def)
  moreover from AcquireContext_cancelled [OF NewSemaphore_2 sem_calls_none, of True False] acq
  have "occupied \<lparr>sem_c = Chan 2 1 False\<rparr> = occupied \<lparr>sem_c = Chan 2 0 False\<rparr> + 1"
    by blast
  ultimately show ?thesis
    using NewSemaphore_2 sem_calls_two acq by (simp add: occupied_def capacity_def)
qed

subsection \<open>AtomicValue\<close>

text \<open>
  \<^verbatim>\<open>CompareAndSwap\<close> with values of the dynamic type held swaps exactly when the value
  held equals \<open>oldV\<close>; on an AtomicValue that holds nothing, with an \<open>oldV\<close> that
  converts to a non-nil \<^verbatim>\<open>any\<close>, it never swaps.
\<close>

lemma CompareAndSwap_stored:
  "rtype_of T oldV = Some rt \<Longrightarrow> rtype_of T newV = Some rt \<Longrightarrow>
   AtomicValue_CompareAndSwap T \<lparr>av_v = Some (rt, cur)\<rparr> oldV newV =
     (if cur = oldV then Returns (True, \<lparr>av_v = Some (rt, newV)\<rparr>)
      else Returns (False, \<lparr>av_v = Some (rt, cur)\<rparr>))"
  by (simp add: AtomicValue_CompareAndSwap_def Value_CompareAndSwap_def to_any_def)

lemma CompareAndSwap_empty:
  "rtype_of T oldV = Some rt \<Longrightarrow> rtype_of T newV = Some rt \<Longrightarrow>
   AtomicValue_CompareAndSwap T \<lparr>av_v = None\<rparr> oldV newV = Returns (False, \<lparr>av_v = None\<rparr>)"
  by (simp add: AtomicValue_CompareAndSwap_def Value_CompareAndSwap_def to_any_def)

text \<open>
  C3. The claim: in every state, the never-stored one included, where \<^verbatim>\<open>Load\<close> gives
  the zero value, \<^verbatim>\<open>CompareAndSwap(old, new)\<close> swaps exactly when the value equals
  \<open>old\<close>. On a never-stored \<^verbatim>\<open>AtomicValue[int]\<close> \<^verbatim>\<open>Load()\<close> gives 0, yet
  \<^verbatim>\<open>CompareAndSwap(0, 5)\<close> returns false and stores nothing: \<^verbatim>\<open>Load()\<close> still
  gives 0, not 5.
\<close>

theorem CompareAndSwap_empty_zero:
  "AtomicValue_Load go_int \<lparr>av_v = None\<rparr> = 0
   \<and> AtomicValue_CompareAndSwap go_int \<lparr>av_v = None\<rparr> 0 5 = Returns (False, \<lparr>av_v = None\<rparr>)
   \<and> AtomicValue_Load go_int \<lparr>av_v = None\<rparr> \<noteq> 5"
  by (simp add: AtomicValue_CompareAndSwap_def Value_CompareAndSwap_def to_any_def go_int_def
      AtomicValue_Load_def AtomicValue_LoadOk_def Value_Load_def)

text \<open>What \<^verbatim>\<open>Store\<close> and \<^verbatim>\<open>Swap\<close> do, by the conversion of \<open>x\<close> and the value held.\<close>

lemma Store_result:
  "AtomicValue_Store T v x =
     (case rtype_of T x of
        None \<Rightarrow> Panics StoreOfNilValue
      | Some rt \<Rightarrow>
          (case av_v v of
             None \<Rightarrow> Returns (v\<lparr>av_v := Some (rt, x)\<rparr>)
           | Some (vrt, y) \<Rightarrow>
               if vrt \<noteq> rt then Panics StoreOfInconsistentType
               else Returns (v\<lparr>av_v := Some (rt, x)\<rparr>)))"
  by (simp add: AtomicValue_Store_def Value_Store_def to_any_def split: option.split)

lemma Swap_result:
  "AtomicValue_Swap T v x =
     (case rtype_of T x of
        None \<Rightarrow> Panics SwapOfNilValue
      | Some rt \<Rightarrow>
          (case av_v v of
             None \<Rightarrow> Returns (zero_of T, v\<lparr>av_v := Some (rt, x)\<rparr>)
           | Some (vrt, y) \<Rightarrow>
               if vrt \<noteq> rt then Panics SwapOfInconsistentType
               else Returns (y, v\<lparr>av_v := Some (rt, x)\<rparr>)))"
  by (simp add: AtomicValue_Swap_def Value_Swap_def to_any_def split: option.split)

lemma Load_result:
  "AtomicValue_Load T v = (case av_v v of None \<Rightarrow> zero_of T | Some (rt, x) \<Rightarrow> x)"
  and LoadOk_result:
  "AtomicValue_LoadOk T v = (case av_v v of None \<Rightarrow> (zero_of T, False) | Some (rt, x) \<Rightarrow> (x, True))"
  by (simp_all add: AtomicValue_Load_def AtomicValue_LoadOk_def Value_Load_def
      split: option.split)

text \<open>
  For a type that is not an interface type, where every value has the one dynamic type
  \<open>rt\<close>, \<^verbatim>\<open>Store\<close> and \<^verbatim>\<open>Swap\<close> always return, from the never-stored state and
  from every state they lead to.
\<close>

lemma Store_non_interface:
  "\<forall>x. rtype_of T x = Some rt \<Longrightarrow> av_v v = None \<or> (\<exists>y. av_v v = Some (rt, y)) \<Longrightarrow>
   \<exists>v'. AtomicValue_Store T v x = Returns v' \<and> av_v v' = Some (rt, x)"
  by (auto simp: Store_result)

lemma Swap_non_interface:
  "\<forall>x. rtype_of T x = Some rt \<Longrightarrow> av_v v = None \<or> (\<exists>y. av_v v = Some (rt, y)) \<Longrightarrow>
   \<exists>v'. AtomicValue_Swap T v x = Returns (AtomicValue_Load T v, v') \<and> av_v v' = Some (rt, x)"
  by (auto simp: Swap_result Load_result)

text \<open>
  C4, as the claim states it for every type and every value, fails: on an
  \<^verbatim>\<open>AtomicValue[error]\<close> that holds an \<^verbatim>\<open>errors.New("a")\<close>, \<^verbatim>\<open>Store(nil)\<close> does
  not return but panics, and so does the \<^verbatim>\<open>Store\<close> of a \<^verbatim>\<open>syscall.Errno\<close>;
  \<^verbatim>\<open>Load()\<close> on the value, which is as it was, gives neither.
\<close>

theorem Store_nil_interface_panics:
  "AtomicValue_Store go_error \<lparr>av_v = Some (''*errors.errorString'', ErrorString ''a'')\<rparr> NilError
     = Panics StoreOfNilValue
   \<and> AtomicValue_Store go_error \<lparr>av_v = Some (''*errors.errorString'', ErrorString ''a'')\<rparr> (Errno 2)
       = Panics StoreOfInconsistentType
   \<and> AtomicValue_Store go_error \<lparr>av_v = None\<rparr> NilError = Panics StoreOfNilValue
   \<and> AtomicValue_Load go_error \<lparr>av_v = Some (''*errors.errorString'', ErrorString ''a'')\<rparr>
       = ErrorString ''a''
   \<and> AtomicValue_Load go_error \<lparr>av_v = Some (''*errors.errorString'', ErrorString ''a'')\<rparr>
       \<noteq> NilError"
  by (simp add: Store_result Load_result go_error_def)

text \<open>
  C4, amended. Let \<open>x\<close> convert to a non-nil \<^verbatim>\<open>any\<close> whose dynamic type is that of the
  value held, if one is held (both always so when \<open>T\<close> is not an interface type and
  the AtomicValue is used through its methods). Then \<^verbatim>\<open>Store(x)\<close> returns, and
  afterwards \<^verbatim>\<open>Load()\<close> gives \<open>x\<close> and \<^verbatim>\<open>LoadOk()\<close> gives \<open>(x, true)\<close>; the same holds
  after every \<^verbatim>\<open>Store(x)\<close> that returns. A \<^verbatim>\<open>Store\<close> of the nil value of an interface
  type panics, and so does a \<^verbatim>\<open>Store\<close> of a value of another dynamic type than the one
  held. On a never-stored AtomicValue \<^verbatim>\<open>Load()\<close> gives the zero value and
  \<^verbatim>\<open>LoadOk()\<close> gives \<open>(zero, false)\<close>.
\<close>

theorem Store_Load:
  "(rtype_of T x = Some rt \<and> (av_v v = None \<or> (\<exists>y. av_v v = Some (rt, y))) \<longrightarrow>
      (\<exists>v'. AtomicValue_Store T v x = Returns v'
            \<and> AtomicValue_Load T v' = x
            \<and> AtomicValue_LoadOk T v' = (x, True)))
   \<and> (\<forall>v'. AtomicValue_Store T v x = Returns v' \<longrightarrow>
          AtomicValue_Load T v' = x \<and> AtomicValue_LoadOk T v' = (x, True))
   \<and> (rtype_of T x = None \<longrightarrow> AtomicValue_Store T v x = Panics StoreOfNilValue)
   \<and> (rtype_of T x = Some rt \<and> av_v v = Some (vrt, yh) \<and> vrt \<noteq> rt \<longrightarrow>
        AtomicValue_Store T v x = Panics StoreOfInconsistentType)
   \<and> AtomicValue_Load T \<lparr>av_v = None\<rparr> = zero_of T
   \<and> AtomicValue_LoadOk T \<lparr>av_v = None\<rparr> = (zero_of T, False)"
proof -
  have "rtype_of T x = Some rt \<and> (av_v v = None \<or> (\<exists>y. av_v v = Some (rt, y))) \<longrightarrow>
      (\<exists>v'. AtomicValue_Store T v x = Returns v'
            \<and> AtomicValue_Load T v' = x
            \<and> AtomicValue_LoadOk T v' = (x, True))"
    by (auto simp: Store_result Load_result LoadOk_result)
  moreover have "\<forall>v'. AtomicValue_Store T v x = Returns v' \<longrightarrow>
          AtomicValue_Load T v' = x \<and> AtomicValue_LoadOk T v' = (x, True)"
    by (auto simp: Store_result Load_result LoadOk_result split: option.splits if_splits)
  moreover have "rtype_of T x = None \<longrightarrow> AtomicValue_Store T v x = Panics StoreOfNilValue"
    by (simp add: Store_result)
  moreover have "rtype_of T x = Some rt \<and> av_v v = Some (vrt, yh) \<and> vrt \<noteq> rt \<longrightarrow>
        AtomicValue_Store T v x = Panics StoreOfInconsistentType"
    by (simp add: Store_result)
  moreover have "AtomicValue_Load T \<lparr>av_v = None\<rparr> = zero_of T"
    and "AtomicValue_LoadOk T \<lparr>av_v = None\<rparr> = (zero_of T, False)"
    by (simp_all add: Load_result LoadOk_result)
  ultimately show ?thesis by blast
qed

theorem Store_Load_witness:
  "(\<exists>v'. AtomicValue_Store go_error \<lparr>av_v = None\<rparr> (ErrorString ''a'') = Returns v'
         \<and> AtomicValue_Load go_error v' = ErrorString ''a''
         \<and> AtomicValue_LoadOk go_error v' = (ErrorString ''a'', True))
   \<and> AtomicValue_Store go_error \<lparr>av_v = None\<rparr> NilError = Panics StoreOfNilValue
   \<and> AtomicValue_Store go_error \<lparr>av_v = Some (''*errors.errorString'', ErrorString ''a'')\<rparr> (Errno 2)
       = Panics StoreOfInconsistentType
   \<and> (\<exists>v'. AtomicValue_Store go_int \<lparr>av_v = Some (''int'', 3)\<rparr> 4 = Returns v'
         \<and> AtomicValue_Load go_int v' = 4
         \<and> AtomicValue_LoadOk go_int v' = (4, True))"
proof -
  have e: "rtype_of go_error (ErrorString ''a'') = Some ''*errors.errorString''"
    and n: "rtype_of go_error NilError = None"
    and s: "rtype_of go_error (Errno 2) = Some ''syscall.Errno''"
    and i: "rtype_of go_int 4 = Some ''int''"
    by (simp_all add: go_error_def go_int_def)
  from Store_Load [where T = go_error and x = "ErrorString ''a''" and rt = "''*errors.errorString''"
      and v = "\<lparr>av_v = None\<rparr>"] e
  have "\<exists>v'. AtomicValue_Store go_error \<lparr>av_v = None\<rparr> (ErrorString ''a'') = Returns v'
         \<and> AtomicValue_Load go_error v' = ErrorString ''a''
         \<and> AtomicValue_LoadOk go_error v' = (ErrorString ''a'', True)"
    by simp
  moreover from Store_Load [where T = go_error and x = NilError and v = "\<lparr>av_v = None\<rparr>"] n
  have "AtomicValue_Store go_error \<lparr>av_v = None\<rparr> NilError = Panics StoreOfNilValue"
    by simp
  moreover
  from Store_Load [where T = go_error and x = "Errno 2" and rt = "''syscall.Errno''"
      and v = "\<lparr>av_v = Some (''*errors.errorString'', ErrorString ''a'')\<rparr>"
      and vrt = "''*errors.errorString''" and yh = "ErrorString ''a''"] s
  have "AtomicValue_Store go_error \<lparr>av_v = Some (''*errors.errorString'', ErrorString ''a'')\<rparr>
      (Errno 2) = Panics StoreOfInconsistentType"
    by simp
  moreover from Store_Load [where T = go_int and x = 4 and rt = "''int''"
      and v = "\<lparr>av_v = Some (''int'', 3)\<rparr>"] i
  have "\<exists>v'. AtomicValue_Store go_int \<lparr>av_v = Some (''int'', 3)\<rparr> 4 = Returns v'
         \<and> AtomicValue_Load go_int v' = 4
         \<and> AtomicValue_LoadOk go_int v' = (4, True)"
    by simp
  ultimately show ?thesis by blast
qed

text \<open>
  C5, as the claim states it for every state and every value, fails: on an
  \<^verbatim>\<open>AtomicValue[error]\<close> that holds an \<^verbatim>\<open>errors.New("a")\<close>, \<^verbatim>\<open>Swap(nil)\<close> returns
  nothing but panics, and so does the \<^verbatim>\<open>Swap\<close> of a \<^verbatim>\<open>syscall.Errno\<close>; a
  \<^verbatim>\<open>Load()\<close> on the value, which is as it was, gives neither.
\<close>

theorem Swap_nil_interface_panics:
  "AtomicValue_Swap go_error \<lparr>av_v = Some (''*errors.errorString'', ErrorString ''a'')\<rparr> NilError
     = Panics SwapOfNilValue
   \<and> AtomicValue_Swap go_error \<lparr>av_v = Some (''*errors.errorString'', ErrorString ''a'')\<rparr> (Errno 2)
       = Panics SwapOfInconsistentType
   \<and> AtomicValue_Swap go_error \<lparr>av_v = None\<rparr> NilError = Panics SwapOfNilValue
   \<and> AtomicValue_Load go_error \<lparr>av_v = Some (''*errors.errorString'', ErrorString ''a'')\<rparr>
       = ErrorString ''a''
   \<and> AtomicValue_Load go_error \<lparr>av_v = Some (''*errors.errorString'', ErrorString ''a'')\<rparr>
       \<noteq> NilError"
  by (simp add: Swap_result Load_result go_error_def)

text \<open>
  C5, amended. Let \<open>x\<close> convert to a non-nil \<^verbatim>\<open>any\<close> whose dynamic type is that of the
  value held, if one is held (both always so when \<open>T\<close> is not an interface type and
  the AtomicValue is used through its methods). Then \<^verbatim>\<open>Swap(x)\<close> returns what
  \<^verbatim>\<open>Load()\<close> gave just before the call, the value held or the zero value on a
  never-stored AtomicValue, and a \<^verbatim>\<open>Load()\<close> after it gives \<open>x\<close>; the same holds of
  every \<^verbatim>\<open>Swap(x)\<close> that returns. A \<^verbatim>\<open>Swap\<close> of the nil value of an interface type
  panics, and so does a \<^verbatim>\<open>Swap\<close> of a value of another dynamic type than the one held.
\<close>

theorem Swap_Load:
  "(rtype_of T x = Some rt \<and> (av_v v = None \<or> (\<exists>y. av_v v = Some (rt, y))) \<longrightarrow>
      (\<exists>v'. AtomicValue_Swap T v x = Returns (AtomicValue_Load T v, v')
            \<and> AtomicValue_Load T v' = x))
   \<and> (rtype_of T x = Some rt \<longrightarrow>
        (\<exists>v'. AtomicValue_Swap T \<lparr>av_v = None\<rparr> x = Returns (zero_of T, v'))
        \<and> (\<exists>v'. AtomicValue_Swap T \<lparr>av_v = Some (rt, yv)\<rparr> x = Returns (yv, v')))
   \<and> (\<forall>r v'. AtomicValue_Swap T v x = Returns (r, v') \<longrightarrow>
          r = AtomicValue_Load T v \<and> AtomicValue_Load T v' = x)
   \<and> (rtype_of T x = None \<longrightarrow> AtomicValue_Swap T v x = Panics SwapOfNilValue)
   \<and> (rtype_of T x = Some rt \<and> av_v v = Some (vrt, yh) \<and> vrt \<noteq> rt \<longrightarrow>
        AtomicValue_Swap T v x = Panics SwapOfInconsistentType)"
proof -
  have "rtype_of T x = Some rt \<and> (av_v v = None \<or> (\<exists>y. av_v v = Some (rt, y))) \<longrightarrow>
      (\<exists>v'. AtomicValue_Swap T v x = Returns (AtomicValue_Load T v, v')
            \<and> AtomicValue_Load T v' = x)"
    by (auto simp: Swap_result Load_result)
  moreover have "rtype_of T x = Some rt \<longrightarrow>
        (\<exists>v'. AtomicValue_Swap T \<lparr>av_v = None\<rparr> x = Returns (zero_of T, v'))
        \<and> (\<exists>v'. AtomicValue_Swap T \<lparr>av_v = Some (rt, yv)\<rparr> x = Returns (yv, v'))"
    by (simp add: Swap_result)
  moreover have "\<forall>r v'. AtomicValue_Swap T v x = Returns (r, v') \<longrightarrow>
          r = AtomicValue_Load T v \<and> AtomicValue_Load T v' = x"
    by (auto simp: Swap_result Load_result split: option.splits if_splits)
  moreover have "rtype_of T x = None \<longrightarrow> AtomicValue_Swap T v x = Panics SwapOfNilValue"
    by (simp add: Swap_result)
  moreover have "rtype_of T x = Some rt \<and> av_v v = Some (vrt, yh) \<and> vrt \<noteq> rt \<longrightarrow>
        AtomicValue_Swap T v x = Panics SwapOfInconsistentType"
    by (simp add: Swap_result)
  ultimately show ?thesis by blast
qed

theorem Swap_Load_witness:
  "(\<exists>v'. AtomicValue_Swap go_error \<lparr>av_v = Some (''*errors.errorString'', ErrorString ''a'')\<rparr>
            (ErrorString ''b'') = Returns (ErrorString ''a'', v')
         \<and> AtomicValue_Load go_error v' = ErrorString ''b'')
   \<and> (\<exists>v'. AtomicValue_Swap go_int \<lparr>av_v = None\<rparr> 4 = Returns (0, v'))
   \<and> AtomicValue_Swap go_error \<lparr>av_v = None\<rparr> NilError = Panics SwapOfNilValue
   \<and> AtomicValue_Swap go_error \<lparr>av_v = Some (''*errors.errorString'', ErrorString ''a'')\<rparr> (Errno 2)
       = Panics SwapOfInconsistentType"
proof -
  have e: "rtype_of go_error (ErrorString ''b'') = Some ''*errors.errorString''"
    and n: "rtype_of go_error NilError = None"
    and s: "rtype_of go_error (Errno 2) = Some ''syscall.Errno''"
    and i: "rtype_of go_int 4 = Some ''int''" and z: "zero_of go_int = 0"
    by (simp_all add: go_error_def go_int_def)
  have l: "AtomicValue_Load go_error \<lparr>av_v = Some (''*errors.errorString'', ErrorString ''a'')\<rparr>
      = ErrorString ''a''"
    by (simp add: Load_result)
  from Swap_Load [where T = go_error and x = "ErrorString ''b''" and rt = "''*errors.errorString''"
      and v = "\<lparr>av_v = Some (''*errors.errorString'', ErrorString ''a'')\<rparr>"] e l
  have "\<exists>v'. AtomicValue_Swap go_error \<lparr>av_v = Some (''*errors.errorString'', ErrorString ''a'')\<rparr>
            (ErrorString ''b'') = Returns (ErrorString ''a'', v')
         \<and> AtomicValue_Load go_error v' = ErrorString ''b''"
    by simp
  moreover from Swap_Load [where T = go_int and x = 4 and rt = "''int''" and v = "\<lparr>av_v = None\<rparr>"] i z
  have "\<exists>v'. AtomicValue_Swap go_int \<lparr>av_v = None\<rparr> 4 = Returns (0, v')"
    by simp
  moreover from Swap_Load [where T = go_error and x = NilError and v = "\<lparr>av_v = None\<rparr>"] n
  have "AtomicValue_Swap go_error \<lparr>av_v = None\<rparr> NilError = Panics SwapOfNilValue"
    by simp
  moreover
  from Swap_Load [where T = go_error and x = "Errno 2" and rt = "''syscall.Errno''"
      and v = "\<lparr>av_v = Some (''*errors.errorString'', ErrorString ''a'')\<rparr>"
      and vrt = "''*errors.errorString''" and yh = "ErrorString ''a''"] s
  have "AtomicValue_Swap go_error \<lparr>av_v = Some (''*errors.errorString'', ErrorString ''a'')\<rparr>
      (Errno 2) = Panics SwapOfInconsistentType"
    by simp
  ultimately show ?thesis by blast
qed

subsection \<open>Map\<close>

lemma entries_Some: "entries m k = Some e \<Longrightarrow> gomap_index zeroV (map_m m) k = (e, True)"
  by (auto simp: entries_def gomap_index_def split: option.splits)

lemma entries_None: "entries m k = None \<Longrightarrow> gomap_index zeroV (map_m m) k = (zeroV, False)"
  by (auto simp: entries_def gomap_index_def split: option.splits)

lemma entries_mak_Set: "entries (m\<lparr>map_m := mak_Set (map_m m) k v\<rparr>) = (entries m)(k \<mapsto> v)"
  by (auto simp: entries_def mak_Set_def split: option.splits)

lemma entries_gomap_delete:
  "entries (m\<lparr>map_m := gomap_delete (map_m m) k\<rparr>) = (entries m)(k := None)"
  by (auto simp: entries_def gomap_delete_def split: option.splits)

lemma gomap_index_delete: "gomap_index zeroV (gomap_delete g k) k = (zeroV, False)"
  by (simp add: gomap_index_def gomap_delete_def split: option.split)

text \<open>
  C6. If the key is present with value \<open>e\<close>, \<^verbatim>\<open>LoadOrStore(k, v)\<close> returns
  \<open>(e, true)\<close> and leaves the Map as it is. If the key is absent it returns
  \<open>(v, false)\<close>, and the entries afterwards are those before with \<open>k\<close> bound to \<open>v\<close>:
  every other key keeps its entry or stays absent.
\<close>

theorem LoadOrStore_frame:
  "(entries m k = Some e \<longrightarrow> Map_LoadOrStore zeroV m k v = ((e, True), m))
   \<and> (entries m k = None \<longrightarrow>
        fst (Map_LoadOrStore zeroV m k v) = (v, False)
        \<and> entries (snd (Map_LoadOrStore zeroV m k v)) = (entries m)(k \<mapsto> v))"
  by (simp add: Map_LoadOrStore_def Map_Load_def entries_Some entries_None entries_mak_Set)

theorem LoadOrStore_frame_witness:
  "Map_LoadOrStore (0::int) \<lparr>map_m = Some [1::nat \<mapsto> 7]\<rparr> 1 9
     = ((7, True), \<lparr>map_m = Some [1 \<mapsto> 7]\<rparr>)
   \<and> fst (Map_LoadOrStore (0::int) \<lparr>map_m = Some [1::nat \<mapsto> 7]\<rparr> 2 9) = (9, False)
   \<and> entries (snd (Map_LoadOrStore (0::int) \<lparr>map_m = Some [1::nat \<mapsto> 7]\<rparr> 2 9))
       = [1 \<mapsto> 7, 2 \<mapsto> 9]"
  using LoadOrStore_frame [of "\<lparr>map_m = Some [1::nat \<mapsto> 7::int]\<rparr>" 1 7 0 9]
    LoadOrStore_frame [of "\<lparr>map_m = Some [1::nat \<mapsto> 7::int]\<rparr>" 2 7 0 9]
  by (simp add: entries_def)

text \<open>
  C7. If the key is present with value \<open>v\<close>, \<^verbatim>\<open>LoadAndDelete(k)\<close> returns
  \<open>(v, true)\<close> and removes that entry and no other, so that a \<^verbatim>\<open>Load(k)\<close> after it
  returns \<open>(zero, false)\<close>. If the key is absent it returns \<open>(zero, false)\<close> and leaves
  the Map as it is.
\<close>

theorem LoadAndDelete_Load:
  "(entries m k = Some v \<longrightarrow>
      fst (Map_LoadAndDelete zeroV m k) = (v, True)
      \<and> entries (snd (Map_LoadAndDelete zeroV m k)) = (entries m)(k := None)
      \<and> Map_Load zeroV (snd (Map_LoadAndDelete zeroV m k)) k = (zeroV, False))
   \<and> (entries m k = None \<longrightarrow> Map_LoadAndDelete zeroV m k = ((zeroV, False), m))"
  by (simp add: Map_LoadAndDelete_def Map_Load_def entries_Some entries_None
      entries_gomap_delete gomap_index_delete)

theorem LoadAndDelete_Load_witness:
  "fst (Map_LoadAndDelete (0::int) \<lparr>map_m = Some [1::nat \<mapsto> 7]\<rparr> 1) = (7, True)
   \<and> Map_Load (0::int) (snd (Map_LoadAndDelete 0 \<lparr>map_m = Some [1::nat \<mapsto> 7]\<rparr> 1)) 1 = (0, False)
   \<and> Map_LoadAndDelete (0::int) \<lparr>map_m = Some [1::nat \<mapsto> 7]\<rparr> 2
       = ((0, False), \<lparr>map_m = Some [1 \<mapsto> 7]\<rparr>)"
  using LoadAndDelete_Load [of "\<lparr>map_m = Some [1::nat \<mapsto> 7::int]\<rparr>" 1 7 0]
    LoadAndDelete_Load [of "\<lparr>map_m = Some [1::nat \<mapsto> 7::int]\<rparr>" 2 7 0]
  by (simp add: entries_def)

end
